theory Spec2Isabelle
  imports Main
begin

section \<open>The Ark interpreter: values, references and compiled code\<close>

text \<open>
  The embedding follows the interpreter source (the file that starts
  \<^verbatim>\<open>// Ark interpreter.\<close>): one constructor per class, under the class's name.

  JavaScript objects that are mutated in place live in an explicit store, addressed by
  \<open>addr\<close>: the slot of an \<^verbatim>\<open>ArkValRef\<close>, the array of an \<^verbatim>\<open>ArkList\<close>, the property
  map of every \<^verbatim>\<open>ArkObjectBase\<close>, the state of a generator.  The scalars are interned
  by \<^verbatim>\<open>ConcreteInterned.value\<close> (modelled on its own in the section on interning), so here
  a scalar is identified with its raw value.  A number is an \<open>int\<close>: the numbers of the
  properties below are small integers, and nothing here computes with them.

  \<open>JsUndefined\<close> is the host's \<^verbatim>\<open>undefined\<close>.  It is not an \<^verbatim>\<open>ArkVal\<close>, but the source
  lets it through where TypeScript's types promise an \<^verbatim>\<open>ArkVal\<close>: the result of
  \<^verbatim>\<open>generator.next().value\<close> once the generator has finished.
\<close>

type_synonym addr = nat

datatype native =
    ListLen addr
  | ListGet addr
  | ListSet addr
  | ListPush addr
  | ListPop addr
  | ListIter addr
  | StringGet string
  | StringIter string
  | GeneratorNext addr

datatype val =
    ArkUndefined
  | JsUndefined
  | ArkNullVal
  | ArkBooleanVal bool
  | ArkNumberVal int
  | ArkStringVal string
  | ArkObject addr
  | ArkList addr
  | ArkClosure "string list" "ref list" exp
  | NativeFn "string list" native
and ref =
    ArkValRef addr
  | ArkPropertyRef val string
  | NoRef
and lexp =
    ArkLocal nat
  | ArkCapture nat
  | ArkProperty exp string
and exp =
    ArkLiteral val
  | ArkBreak exp
  | ArkContinue
  | ArkReturn exp
  | ArkFn "string list" "lexp list" exp
  | ArkCall exp "exp list"
  | Lexp lexp
  | ArkSet lexp exp
  | ArkObjectLiteral "(string \<times> exp) list"
  | ArkListLiteral "exp list"
  | ArkLet "(string \<times> exp) list" exp
  | ArkSequence "exp list"
  | ArkIf exp exp "exp option"
  | ArkAnd exp exp
  | ArkOr exp exp
  | ArkLoop exp

text \<open>
  \<open>NoRef\<close> is the host's \<^verbatim>\<open>undefined\<close> where an \<^verbatim>\<open>ArkRef\<close> is expected: what
  \<^verbatim>\<open>ark.frame.locals[index]\<close> gives for an index out of range.  \<open>Lexp\<close> embeds the
  subclass \<^verbatim>\<open>ArkLexp\<close> of \<^verbatim>\<open>ArkExp\<close>.

  The classes of a value, as \<^verbatim>\<open>.constructor\<close> and \<^verbatim>\<open>instanceof\<close> see them.
\<close>

datatype ctor =
    CtorArkVal
  | CtorArkNullVal
  | CtorArkBooleanVal
  | CtorArkNumberVal
  | CtorArkStringVal
  | CtorArkObject
  | CtorArkList
  | CtorArkClosure
  | CtorNativeFn

fun constructor :: "val \<Rightarrow> ctor option" where
  "constructor ArkUndefined = Some CtorArkVal"
| "constructor JsUndefined = None"
| "constructor ArkNullVal = Some CtorArkNullVal"
| "constructor (ArkBooleanVal b) = Some CtorArkBooleanVal"
| "constructor (ArkNumberVal n) = Some CtorArkNumberVal"
| "constructor (ArkStringVal s) = Some CtorArkStringVal"
| "constructor (ArkObject a) = Some CtorArkObject"
| "constructor (ArkList a) = Some CtorArkList"
| "constructor (ArkClosure ps cs b) = Some CtorArkClosure"
| "constructor (NativeFn ps f) = Some CtorNativeFn"

fun isArkAbstractObjectBase :: "val \<Rightarrow> bool" where
  "isArkAbstractObjectBase ArkNullVal = True"
| "isArkAbstractObjectBase (ArkBooleanVal b) = True"
| "isArkAbstractObjectBase (ArkNumberVal n) = True"
| "isArkAbstractObjectBase (ArkStringVal s) = True"
| "isArkAbstractObjectBase (ArkObject a) = True"
| "isArkAbstractObjectBase (ArkList a) = True"
| "isArkAbstractObjectBase v = False"

fun isArkCallable :: "val \<Rightarrow> bool" where
  "isArkCallable (ArkClosure ps cs b) = True"
| "isArkCallable (NativeFn ps f) = True"
| "isArkCallable v = False"

subsection \<open>Errors and signals\<close>

text \<open>
  Everything the source throws is a value: the three subclasses of
  \<^verbatim>\<open>ArkNonLocalReturn\<close>, \<^verbatim>\<open>ArkRuntimeError\<close> with its message, and the host's own
  \<^verbatim>\<open>TypeError\<close> (a member access on \<^verbatim>\<open>undefined\<close>).  Two more outcomes belong to the
  model: \<open>BridgeCall\<close> for a native whose body goes through \<^verbatim>\<open>toJs\<close> of
  \<^verbatim>\<open>ffi.js\<close>, which is not among the sources, and \<open>OutOfFuel\<close> for an evaluation
  that needs more steps than it was given.
\<close>

datatype error =
    ArkBreakException val
  | ArkContinueException val
  | ArkReturnException val
  | ArkRuntimeError string
  | TypeError
  | BridgeCall
  | OutOfFuel

fun isArkNonLocalReturn :: "error \<Rightarrow> bool" where
  "isArkNonLocalReturn (ArkBreakException v) = True"
| "isArkNonLocalReturn (ArkContinueException v) = True"
| "isArkNonLocalReturn (ArkReturnException v) = True"
| "isArkNonLocalReturn e = False"

subsection \<open>The frame and the store\<close>

datatype generator =
    ListGenerator addr nat
  | StringGenerator string
  | Finished

record state =
  locals :: "ref list"
  captures :: "ref list"
  refs :: "addr \<Rightarrow> val"
  properties :: "val \<Rightarrow> string \<rightharpoonup> val"
  lists :: "addr \<Rightarrow> val list"
  generators :: "addr \<Rightarrow> generator"
  nextAddr :: addr

text \<open>
  \<open>locals\<close> and \<open>captures\<close> are \<^verbatim>\<open>ark.frame.locals\<close> and \<^verbatim>\<open>ark.frame.captures\<close> of the
  \<^verbatim>\<open>ArkState\<close> being evaluated in; the other fields are the store, shared by all
  frames.  \<open>properties\<close> is keyed by the object itself: \<open>ArkObject a\<close>, \<open>ArkList a\<close> or
  an interned scalar.
\<close>

definition stringProperties :: "string \<Rightarrow> string \<rightharpoonup> val" where
  "stringProperties s =
     [''get'' \<mapsto> NativeFn [''index''] (StringGet s),
      ''iter'' \<mapsto> NativeFn [] (StringIter s)]"

definition initialProperties :: "val \<Rightarrow> string \<rightharpoonup> val" where
  "initialProperties v = (case v of ArkStringVal s \<Rightarrow> stringProperties s | _ \<Rightarrow> Map.empty)"

definition newArkState :: state where
  "newArkState = \<lparr>locals = [], captures = [],
     refs = (\<lambda>a. ArkNullVal), properties = initialProperties,
     lists = (\<lambda>a. []), generators = (\<lambda>a. Finished), nextAddr = 0\<rparr>"

definition push :: "ref list \<Rightarrow> state \<Rightarrow> state" where
  "push items s = s\<lparr>locals := locals s @ items\<rparr>"

definition pop :: "nat \<Rightarrow> state \<Rightarrow> state" where
  "pop nItems s = s\<lparr>locals := take (length (locals s) - nItems) (locals s)\<rparr>"

subsection \<open>References\<close>

text \<open>
  \<^verbatim>\<open>ArkObjectBase.get\<close> is \<^verbatim>\<open>this.properties.get(prop) ?? ArkUndefined\<close>: a property
  that is absent and one that holds the host's \<^verbatim>\<open>undefined\<close> both read as
  \<open>ArkUndefined\<close>.  \<^verbatim>\<open>ArkObjectBase.set\<close> is \<^verbatim>\<open>this.properties.set(prop, val)\<close>.
\<close>

definition objGet :: "val \<Rightarrow> string \<Rightarrow> state \<Rightarrow> val" where
  "objGet obj prop s =
     (case properties s obj prop of
        None \<Rightarrow> ArkUndefined
      | Some v \<Rightarrow> if v = JsUndefined then ArkUndefined else v)"

definition objSet :: "val \<Rightarrow> string \<Rightarrow> val \<Rightarrow> state \<Rightarrow> state" where
  "objSet obj prop v s = s\<lparr>properties := (properties s)(obj := (properties s obj)(prop \<mapsto> v))\<rparr>"

definition invalidProperty :: "string \<Rightarrow> string" where
  "invalidProperty prop = ''Invalid property '' @ [CHR 0x27] @ prop @ [CHR 0x27]"

fun refGet :: "ref \<Rightarrow> state \<Rightarrow> error + val" where
  "refGet (ArkValRef a) s = Inr (refs s a)"
| "refGet (ArkPropertyRef obj prop) s =
     (if objGet obj prop s = ArkUndefined
      then Inl (ArkRuntimeError (invalidProperty prop))
      else Inr (objGet obj prop s))"
| "refGet NoRef s = Inl TypeError"

fun refSet :: "ref \<Rightarrow> val \<Rightarrow> state \<Rightarrow> (error + val) \<times> state" where
  "refSet (ArkValRef a) v s = (Inr v, s\<lparr>refs := (refs s)(a := v)\<rparr>)"
| "refSet (ArkPropertyRef obj prop) v s = (Inr v, objSet obj prop v s)"
| "refSet NoRef v s = (Inl TypeError, s)"

text \<open>
  The constructors of \<^verbatim>\<open>ArkValRef\<close> and of \<^verbatim>\<open>ArkNonLocalReturn\<close> declare their parameter
  as \<^verbatim>\<open>val: ArkVal = ArkNull()\<close>; JavaScript takes the default also when the argument is
  \<^verbatim>\<open>undefined\<close>.
\<close>

definition orArkNull :: "val \<Rightarrow> val" where
  "orArkNull v = (if v = JsUndefined then ArkNullVal else v)"

definition newArkValRef :: "val \<Rightarrow> state \<Rightarrow> ref \<times> state" where
  "newArkValRef v s =
     (ArkValRef (nextAddr s),
      s\<lparr>refs := (refs s)(nextAddr s := orArkNull v), nextAddr := Suc (nextAddr s)\<rparr>)"

fun newArkValRefs :: "val list \<Rightarrow> state \<Rightarrow> ref list \<times> state" where
  "newArkValRefs [] s = ([], s)"
| "newArkValRefs (v # vs) s =
     (let (r, s1) = newArkValRef v s;
          (rs, s2) = newArkValRefs vs s1
      in (r # rs, s2))"

text \<open>\<^verbatim>\<open>vals[index] ?? ArkUndefined\<close>\<close>

definition valOrUndefined :: "val list \<Rightarrow> nat \<Rightarrow> val" where
  "valOrUndefined vals index =
     (if index < length vals \<and> vals ! index \<noteq> JsUndefined then vals ! index else ArkUndefined)"

definition makeLocals :: "string list \<Rightarrow> val list \<Rightarrow> state \<Rightarrow> ref list \<times> state" where
  "makeLocals names vals s =
     (let (locals, s1) = newArkValRefs (map (valOrUndefined vals) [0..<length names]) s
      in if length vals > length names
         then (let (more, s2) = newArkValRefs (drop (length names) vals) s1
               in (locals @ more, s2))
         else (locals, s1))"

subsection \<open>Lists, generators and the native functions of the constructors\<close>

definition listProperties :: "addr \<Rightarrow> string \<rightharpoonup> val" where
  "listProperties a =
     [''len'' \<mapsto> NativeFn [''len''] (ListLen a),
      ''get'' \<mapsto> NativeFn [''index''] (ListGet a),
      ''set'' \<mapsto> NativeFn [''index'', ''val''] (ListSet a),
      ''push'' \<mapsto> NativeFn [''item''] (ListPush a),
      ''pop'' \<mapsto> NativeFn [] (ListPop a),
      ''iter'' \<mapsto> NativeFn [] (ListIter a)]"

definition newArkList :: "val list \<Rightarrow> state \<Rightarrow> (error + val) \<times> state" where
  "newArkList list s =
     (Inr (ArkList (nextAddr s)),
      s\<lparr>lists := (lists s)(nextAddr s := list),
        properties := (properties s)(ArkList (nextAddr s) := listProperties (nextAddr s)),
        nextAddr := Suc (nextAddr s)\<rparr>)"

definition newArkObject :: "(string \<rightharpoonup> val) \<Rightarrow> state \<Rightarrow> (error + val) \<times> state" where
  "newArkObject inits s =
     (Inr (ArkObject (nextAddr s)),
      s\<lparr>properties := (properties s)(ArkObject (nextAddr s) := inits),
        nextAddr := Suc (nextAddr s)\<rparr>)"

definition newGenerator :: "generator \<Rightarrow> state \<Rightarrow> (error + val) \<times> state" where
  "newGenerator g s =
     (Inr (NativeFn [] (GeneratorNext (nextAddr s))),
      s\<lparr>generators := (generators s)(nextAddr s := g), nextAddr := Suc (nextAddr s)\<rparr>)"

text \<open>
  \<^verbatim>\<open>generator.next().value\<close>.  The generator function is
  \<^verbatim>\<open>for (const elem of list) { yield elem }; return ArkNull()\<close>: while the array
  iterator's index is below the array's current length, \<^verbatim>\<open>next()\<close> is
  \<^verbatim>\<open>{value: elem, done: false}\<close>; the first call after that runs the \<^verbatim>\<open>return\<close> and is
  \<^verbatim>\<open>{value: ArkNull(), done: true}\<close>; the generator is then finished, and every later
  \<^verbatim>\<open>next()\<close> is \<^verbatim>\<open>{value: undefined, done: true}\<close>.  A string is iterated by
  characters.
\<close>

definition generatorNext :: "addr \<Rightarrow> state \<Rightarrow> (error + val) \<times> state" where
  "generatorNext g s =
     (case generators s g of
        ListGenerator a i \<Rightarrow>
          if i < length (lists s a)
          then (Inr (lists s a ! i), s\<lparr>generators := (generators s)(g := ListGenerator a (Suc i))\<rparr>)
          else (Inr ArkNullVal, s\<lparr>generators := (generators s)(g := Finished)\<rparr>)
      | StringGenerator str \<Rightarrow>
          (case str of
             [] \<Rightarrow> (Inr ArkNullVal, s\<lparr>generators := (generators s)(g := Finished)\<rparr>)
           | c # cs \<Rightarrow> (Inr (ArkStringVal [c]),
                       s\<lparr>generators := (generators s)(g := StringGenerator cs)\<rparr>))
      | Finished \<Rightarrow> (Inr JsUndefined, s))"

text \<open>A native's body applied to its arguments; a missing argument is \<^verbatim>\<open>undefined\<close>.\<close>

definition argAt :: "val list \<Rightarrow> nat \<Rightarrow> val" where
  "argAt args i = (if i < length args then args ! i else JsUndefined)"

fun callNative :: "native \<Rightarrow> val list \<Rightarrow> state \<Rightarrow> (error + val) \<times> state" where
  "callNative (ListLen a) args s = (Inr (ArkNumberVal (int (length (lists s a)))), s)"
| "callNative (ListGet a) args s = (Inl BridgeCall, s)"
| "callNative (ListSet a) args s = (Inl BridgeCall, s)"
| "callNative (ListPush a) args s =
     (Inr (ArkList a), s\<lparr>lists := (lists s)(a := lists s a @ [argAt args 0])\<rparr>)"
| "callNative (ListPop a) args s =
     (Inr (ArkList a), s\<lparr>lists := (lists s)(a := butlast (lists s a))\<rparr>)"
| "callNative (ListIter a) args s = newGenerator (ListGenerator a 0) s"
| "callNative (StringGet str) args s = (Inl BridgeCall, s)"
| "callNative (StringIter str) args s = newGenerator (StringGenerator str) s"
| "callNative (GeneratorNext g) args s = generatorNext g s"

subsection \<open>The evaluator\<close>

text \<open>
  Every \<^verbatim>\<open>eval\<close> of the source is \<^verbatim>\<open>async\<close>, and every call of it is awaited at once:
  the steps run one after the other, which \<open>andThen\<close> writes down, an error or signal
  of the first step being the result.
\<close>

fun andThen :: "(error + 'a) \<times> state \<Rightarrow> ('a \<Rightarrow> state \<Rightarrow> (error + 'b) \<times> state)
    \<Rightarrow> (error + 'b) \<times> state" where
  "andThen (Inl e, s) f = (Inl e, s)"
| "andThen (Inr v, s) f = f v s"

text \<open>
  Modelled from the spec: \<^verbatim>\<open>toJs\<close> of \<^verbatim>\<open>ffi.js\<close> is missing; the spec calls it the
  export of a value to host form.  \<^verbatim>\<open>ArkIf\<close>, \<^verbatim>\<open>ArkAnd\<close> and \<^verbatim>\<open>ArkOr\<close> branch on
  \<^verbatim>\<open>toJs(val)\<close>, so this is JavaScript's truthiness of the exported value: of the raw
  value for a scalar, and true for every object.
\<close>

fun toJsTruthy :: "val \<Rightarrow> bool" where
  "toJsTruthy JsUndefined = False"
| "toJsTruthy ArkNullVal = False"
| "toJsTruthy (ArkBooleanVal b) = b"
| "toJsTruthy (ArkNumberVal n) = (n \<noteq> 0)"
| "toJsTruthy (ArkStringVal str) = (str \<noteq> [])"
| "toJsTruthy v = True"

fun evalList :: "(exp \<Rightarrow> state \<Rightarrow> (error + val) \<times> state) \<Rightarrow> exp list \<Rightarrow> state
    \<Rightarrow> (error + val list) \<times> state" where
  "evalList ev [] s = (Inr [], s)"
| "evalList ev (e # es) s =
     andThen (ev e s) (\<lambda>v s1.
     andThen (evalList ev es s1) (\<lambda>vs s2. (Inr (v # vs), s2)))"

fun evalRef :: "(exp \<Rightarrow> state \<Rightarrow> (error + val) \<times> state) \<Rightarrow> lexp \<Rightarrow> state
    \<Rightarrow> (error + ref) \<times> state" where
  "evalRef ev (ArkLocal index) s =
     (Inr (if index < length (locals s) then locals s ! index else NoRef), s)"
| "evalRef ev (ArkCapture index) s =
     (Inr (if index < length (captures s) then captures s ! index else NoRef), s)"
| "evalRef ev (ArkProperty obj prop) s =
     andThen (ev obj s) (\<lambda>objVal s1.
       if \<not> isArkAbstractObjectBase objVal
       then (Inl (ArkRuntimeError ''Attempt to read property of non-object''), s1)
       else (Inr (ArkPropertyRef objVal prop), s1))"

fun evalRefs :: "(exp \<Rightarrow> state \<Rightarrow> (error + val) \<times> state) \<Rightarrow> lexp list \<Rightarrow> state
    \<Rightarrow> (error + ref list) \<times> state" where
  "evalRefs ev [] s = (Inr [], s)"
| "evalRefs ev (l # ls) s =
     andThen (evalRef ev l s) (\<lambda>r s1.
     andThen (evalRefs ev ls s1) (\<lambda>rs s2. (Inr (r # rs), s2)))"

fun evalProperties :: "(exp \<Rightarrow> state \<Rightarrow> (error + val) \<times> state) \<Rightarrow> (string \<times> exp) list
    \<Rightarrow> (string \<rightharpoonup> val) \<Rightarrow> state \<Rightarrow> (error + (string \<rightharpoonup> val)) \<times> state" where
  "evalProperties ev [] inits s = (Inr inits, s)"
| "evalProperties ev ((k, v) # ps) inits s =
     andThen (ev v s) (\<lambda>x s1. evalProperties ev ps (inits(k \<mapsto> x)) s1)"

fun evalSequence :: "(exp \<Rightarrow> state \<Rightarrow> (error + val) \<times> state) \<Rightarrow> exp list \<Rightarrow> val \<Rightarrow> state
    \<Rightarrow> (error + val) \<times> state" where
  "evalSequence ev [] res s = (Inr res, s)"
| "evalSequence ev (e # es) res s = andThen (ev e s) (\<lambda>v s1. evalSequence ev es v s1)"

fun getAll :: "ref list \<Rightarrow> state \<Rightarrow> (error + val list) \<times> state" where
  "getAll [] s = (Inr [], s)"
| "getAll (r # rs) s =
     andThen (refGet r s, s) (\<lambda>v s1.
     andThen (getAll rs s1) (\<lambda>vs s2. (Inr (v # vs), s2)))"

fun setAll :: "ref list \<Rightarrow> val list \<Rightarrow> state \<Rightarrow> state" where
  "setAll (r # rs) (v # vs) s = setAll rs vs (snd (refSet r v s))"
| "setAll rs vs s = s"

text \<open>
  \<^verbatim>\<open>ArkSet.eval\<close>'s guard
  \<^verbatim>\<open>oldVal !== ArkUndefined && oldVal.constructor !== ArkNullVal && res.constructor !== oldVal.constructor\<close>,
  read from left to right.
\<close>

definition differentType :: "val \<Rightarrow> val \<Rightarrow> error + bool" where
  "differentType oldVal res =
     (if oldVal = ArkUndefined then Inr False
      else case constructor oldVal of
        None \<Rightarrow> Inl TypeError
      | Some oldC \<Rightarrow>
          if oldC = CtorArkNullVal then Inr False
          else case constructor res of
            None \<Rightarrow> Inl TypeError
          | Some resC \<Rightarrow> Inr (resC \<noteq> oldC))"

definition pushLets :: "(exp \<Rightarrow> state \<Rightarrow> (error + val) \<times> state) \<Rightarrow> (string \<times> exp) list
    \<Rightarrow> state \<Rightarrow> (error + nat) \<times> state" where
  "pushLets ev boundVars s =
     (let (lets, s1) = makeLocals (map fst boundVars) [] s
      in andThen (evalList ev (map snd boundVars) (push lets s1)) (\<lambda>vals s2.
           (Inr (length lets), setAll lets vals s2)))"

text \<open>
  \<^verbatim>\<open>ArkCall.eval\<close> from \<^verbatim>\<open>makeLocals\<close> on: the callee runs in a new \<^verbatim>\<open>ArkState\<close> whose
  frame holds the new locals and the callee's captures; the caller's frame is the one
  it had.  \<^verbatim>\<open>ArkClosure.call\<close> turns an \<^verbatim>\<open>ArkReturnException\<close> into its value and lets
  everything else through.
\<close>

definition inFrame :: "state \<Rightarrow> (error + 'a) \<times> state \<Rightarrow> (error + 'a) \<times> state" where
  "inFrame caller r = (fst r, (snd r)\<lparr>locals := locals caller, captures := captures caller\<rparr>)"

fun closureResult :: "(error + val) \<times> state \<Rightarrow> (error + val) \<times> state" where
  "closureResult (Inl (ArkReturnException v), s) = (Inr v, s)"
| "closureResult r = r"

fun call :: "(exp \<Rightarrow> state \<Rightarrow> (error + val) \<times> state) \<Rightarrow> val \<Rightarrow> val list \<Rightarrow> state
    \<Rightarrow> (error + val) \<times> state" where
  "call ev (ArkClosure params caps body) evaluatedArgs s =
     (let (ls, s1) = makeLocals params evaluatedArgs s
      in inFrame s (closureResult (ev body (s1\<lparr>locals := ls, captures := caps\<rparr>))))"
| "call ev (NativeFn params f) evaluatedArgs s =
     (let (ls, s1) = makeLocals params evaluatedArgs s
      in inFrame s (andThen (getAll ls (s1\<lparr>locals := ls, captures := []\<rparr>)) (callNative f)))"
| "call ev fnVal evaluatedArgs s = (Inl (ArkRuntimeError ''Invalid call''), s)"

fun eval :: "nat \<Rightarrow> exp \<Rightarrow> state \<Rightarrow> (error + val) \<times> state" where
  "eval 0 e s = (Inl OutOfFuel, s)"
| "eval (Suc n) (ArkLiteral v) s = (Inr v, s)"
| "eval (Suc n) (ArkBreak e) s =
     andThen (eval n e s) (\<lambda>v s1. (Inl (ArkBreakException (orArkNull v)), s1))"
| "eval (Suc n) ArkContinue s = (Inl (ArkContinueException ArkNullVal), s)"
| "eval (Suc n) (ArkReturn e) s =
     andThen (eval n e s) (\<lambda>v s1. (Inl (ArkReturnException (orArkNull v)), s1))"
| "eval (Suc n) (ArkFn params capturedVars body) s =
     andThen (evalRefs (eval n) capturedVars s) (\<lambda>caps s1.
       (Inr (ArkClosure params caps body), s1))"
| "eval (Suc n) (ArkCall fn args) s =
     andThen (eval n fn s) (\<lambda>fnVal s1.
       if \<not> isArkCallable fnVal then (Inl (ArkRuntimeError ''Invalid call''), s1)
       else andThen (evalList (eval n) args s1) (\<lambda>evaluatedArgs s2.
              call (eval n) fnVal evaluatedArgs s2))"
| "eval (Suc n) (Lexp l) s =
     andThen (evalRef (eval n) l s) (\<lambda>r s1. (refGet r s1, s1))"
| "eval (Suc n) (ArkSet l e) s =
     andThen (evalRef (eval n) l s) (\<lambda>r s1.
     andThen (eval n e s1) (\<lambda>res s2.
     andThen (refGet r s2, s2) (\<lambda>oldVal s3.
     andThen (differentType oldVal res, s3) (\<lambda>different s4.
       if different then (Inl (ArkRuntimeError ''Assignment to different type''), s4)
       else refSet r res s4))))"
| "eval (Suc n) (ArkObjectLiteral props) s =
     andThen (evalProperties (eval n) props Map.empty s) newArkObject"
| "eval (Suc n) (ArkListLiteral es) s =
     andThen (evalList (eval n) es s) newArkList"
| "eval (Suc n) (ArkLet boundVars body) s =
     andThen (pushLets (eval n) boundVars s) (\<lambda>nLets s1.
       case eval n body s1 of
         (Inl e, s2) \<Rightarrow> (Inl e, if isArkNonLocalReturn e then pop nLets s2 else s2)
       | (Inr res, s2) \<Rightarrow> (Inr res, pop nLets s2))"
| "eval (Suc n) (ArkSequence es) s = evalSequence (eval n) es ArkNullVal s"
| "eval (Suc n) (ArkIf cond thenExp elseExp) s =
     andThen (eval n cond s) (\<lambda>condVal s1.
       if toJsTruthy condVal then eval n thenExp s1
       else (case elseExp of
               Some e \<Rightarrow> eval n e s1
             | None \<Rightarrow> (Inr ArkNullVal, s1)))"
| "eval (Suc n) (ArkAnd left right) s =
     andThen (eval n left s) (\<lambda>leftVal s1.
       if toJsTruthy leftVal then eval n right s1 else (Inr leftVal, s1))"
| "eval (Suc n) (ArkOr left right) s =
     andThen (eval n left s) (\<lambda>leftVal s1.
       if toJsTruthy leftVal then (Inr leftVal, s1) else eval n right s1)"
| "eval (Suc n) (ArkLoop body) s =
     (case eval n body s of
        (Inl (ArkBreakException v), s1) \<Rightarrow> (Inr v, s1)
      | (Inl (ArkContinueException v), s1) \<Rightarrow> eval n (ArkLoop body) s1
      | (Inl e, s1) \<Rightarrow> (Inl e, s1)
      | (Inr v, s1) \<Rightarrow> eval n (ArkLoop body) s1)"

text \<open>
  What \<^verbatim>\<open>makeLocals(names, vals)\<close> stores in its slot number \<open>i\<close>: below
  \<open>length names\<close> it is \<^verbatim>\<open>vals[i] ?? ArkUndefined\<close>, from there on the argument
  itself, passed through \<^verbatim>\<open>new ArkValRef\<close>.
\<close>

definition boundVal :: "string list \<Rightarrow> val list \<Rightarrow> nat \<Rightarrow> val" where
  "boundVal names vals i =
     (if i < length names then valOrUndefined vals i
      else orArkNull (vals ! i))"

section \<open>Interning of scalars\<close>

text \<open>
  \<^verbatim>\<open>ConcreteInterned.value\<close> of the interpreter keeps a \<^verbatim>\<open>Map\<close> from the raw scalar to a
  \<^verbatim>\<open>WeakRef\<close> of the interned object, and registers every object it creates with a
  \<^verbatim>\<open>FinalizationRegistry\<close> whose callback is \<^verbatim>\<open>(key) => this.intern.delete(key)\<close>.

  The objects are the addresses of \<open>concreteVals\<close>, which holds the constructor and the
  raw value of every object that has not been reclaimed; a weak reference is the address
  of its target, and \<^verbatim>\<open>deref()\<close> is the lookup in \<open>concreteVals\<close>.  The host acts on this
  state by two steps of its own, at times of its choosing: it reclaims an object nothing
  holds any more (\<open>reclaim\<close>), and, some time after that, it runs the registry's
  callback with the value held for that object (\<open>finalizationCallback\<close>).
\<close>

text \<open>
  The raw scalars.  \<open>RawNaN\<close> is the number \<^verbatim>\<open>NaN\<close>, which the division intrinsic gives
  for \<^verbatim>\<open>0 / 0\<close>; \<open>RawNumber\<close> holds the other numbers, for which the integers stand.
  As a key of a \<^verbatim>\<open>Map\<close> every raw value is equal to itself, \<^verbatim>\<open>NaN\<close> too; under \<^verbatim>\<open>===\<close>
  \<^verbatim>\<open>NaN\<close> is not.
\<close>

datatype raw = RawNull | RawBoolean bool | RawNumber int | RawNaN | RawString string

record interning =
  intern :: "raw \<rightharpoonup> addr"
  concreteVals :: "addr \<rightharpoonup> ctor \<times> raw"
  registry :: "(addr \<times> raw) list"
  nextVal :: addr

definition noInterning :: interning where
  "noInterning = \<lparr>intern = Map.empty, concreteVals = Map.empty, registry = [], nextVal = 0\<rparr>"

definition deref :: "addr \<Rightarrow> interning \<Rightarrow> addr option" where
  "deref ref t = (if concreteVals t ref = None then None else Some ref)"

definition ConcreteInterned_value :: "ctor \<Rightarrow> raw \<Rightarrow> interning \<Rightarrow> addr \<times> interning" where
  "ConcreteInterned_value TConstructor rawVal t =
     (case Option.bind (intern t rawVal) (\<lambda>ref. deref ref t) of
        None \<Rightarrow>
          (nextVal t,
           t\<lparr>concreteVals := (concreteVals t)(nextVal t \<mapsto> (TConstructor, rawVal)),
             intern := (intern t)(rawVal \<mapsto> nextVal t),
             registry := registry t @ [(nextVal t, rawVal)],
             nextVal := Suc (nextVal t)\<rparr>)
      | Some val \<Rightarrow> (val, t))"

definition reclaim :: "addr \<Rightarrow> interning \<Rightarrow> interning" where
  "reclaim a t = t\<lparr>concreteVals := (concreteVals t)(a := None)\<rparr>"

definition finalizationCallback :: "addr \<Rightarrow> interning \<Rightarrow> interning" where
  "finalizationCallback a t =
     (case map_of (registry t) a of
        None \<Rightarrow> t
      | Some key \<Rightarrow>
          if concreteVals t a = None
          then t\<lparr>intern := (intern t)(key := None),
                 registry := filter (\<lambda>r. fst r \<noteq> a) (registry t)\<rparr>
          else t)"

definition ArkNumber :: "int \<Rightarrow> interning \<Rightarrow> addr \<times> interning" where
  "ArkNumber n t = ConcreteInterned_value CtorArkNumberVal (RawNumber n) t"

text \<open>
  \<^verbatim>\<open>ConcreteInterned.value\<close> of \<^verbatim>\<open>interp.ts\<close> keeps the objects themselves in its
  \<^verbatim>\<open>Map\<close>; nothing is ever removed from it.
\<close>

record interning_interp =
  intern_interp :: "raw \<rightharpoonup> addr"
  concreteVals_interp :: "addr \<rightharpoonup> raw"
  nextVal_interp :: addr

definition ConcreteInterned_value_interp :: "raw \<Rightarrow> interning_interp \<Rightarrow> addr \<times> interning_interp" where
  "ConcreteInterned_value_interp rawVal t =
     (case intern_interp t rawVal of
        None \<Rightarrow>
          (nextVal_interp t,
           t\<lparr>concreteVals_interp := (concreteVals_interp t)(nextVal_interp t \<mapsto> rawVal),
             intern_interp := (intern_interp t)(rawVal \<mapsto> nextVal_interp t),
             nextVal_interp := Suc (nextVal_interp t)\<rparr>)
      | Some val \<Rightarrow> (val, t))"

section \<open>The earlier interpreter (interp.ts)\<close>

text \<open>
  In \<^verbatim>\<open>interp.ts\<close> every class extends \<^verbatim>\<open>Val\<close>.  \<^verbatim>\<open>bindArgsToParams\<close> only builds values
  and keeps the arguments it is given, so for it a value is the finite tree it is built
  from: a \<^verbatim>\<open>ConcreteVal\<close>, an \<^verbatim>\<open>Obj\<close>, a \<^verbatim>\<open>DictLiteral\<close> or a \<^verbatim>\<open>ListLiteral\<close> (with their
  subclasses \<^verbatim>\<open>ObjLiteral\<close>, \<^verbatim>\<open>Dict\<close>, \<^verbatim>\<open>List\<close>), or any other object (\<open>OtherVal\<close>: a
  closure, a native, a reference), known by its identity.  The method table that the
  constructors of \<^verbatim>\<open>ListLiteral\<close> and \<^verbatim>\<open>DictLiteral\<close> attach is not part of it.
\<close>

datatype Val =
    ConcreteVal raw
  | Obj "(string \<times> Val) list"
  | DictLiteral "(Val \<times> Val) list"
  | ListLiteral "Val list"
  | OtherVal nat

datatype Ref = ValRef Val

definition Null :: Val where
  "Null = ConcreteVal RawNull"

definition Bool :: "bool \<Rightarrow> Val" where
  "Bool b = ConcreteVal (RawBoolean b)"

definition bindArgsToParams :: "string list \<Rightarrow> Val list \<Rightarrow> Ref list" where
  "bindArgsToParams params args =
     (let frame = map (\<lambda>index. ValRef (if index < length args then args ! index else Null))
                      [0..<length params]
      in if length args > length params
         then frame @ [ValRef (ListLiteral (drop (length params) args))]
         else frame)"

subsection \<open>Export to host form\<close>

text \<open>
  \<^verbatim>\<open>toJs\<close> follows the fields of the objects it is given, and \<^verbatim>\<open>PropRef.set\<close>,
  \<^verbatim>\<open>List.set\<close> and \<^verbatim>\<open>Dict.set\<close> assign those fields in place: an object can come to
  contain itself.  So for \<^verbatim>\<open>toJs\<close> the objects are in a store, and a value is a scalar or
  the address of an object: \<open>objVal\<close>, \<open>dictMap\<close> and \<open>listList\<close> are the fields
  \<^verbatim>\<open>val\<close> of an \<^verbatim>\<open>Obj\<close>, \<^verbatim>\<open>map\<close> of a \<^verbatim>\<open>DictLiteral\<close> and \<^verbatim>\<open>list\<close> of a \<^verbatim>\<open>ListLiteral\<close>.
\<close>

datatype ValAt =
    ConcreteValAt raw
  | ObjAt addr
  | DictLiteralAt addr
  | ListLiteralAt addr
  | OtherValAt nat

record valStore =
  objVal :: "addr \<Rightarrow> (string \<times> ValAt) list"
  dictMap :: "addr \<Rightarrow> (ValAt \<times> ValAt) list"
  listList :: "addr \<Rightarrow> ValAt list"















section \<open>The frame during a let\<close>



text \<open>
  \<open>frameRef s l\<close> is the reference that a local or capture node denotes in the frame of
  \<open>s\<close>: \<^verbatim>\<open>ark.frame.locals[index]\<close> or \<^verbatim>\<open>ark.frame.captures[index]\<close>.
\<close>

fun frameRef :: "state \<Rightarrow> lexp \<Rightarrow> ref" where
  "frameRef s (ArkLocal index) = (if index < length (locals s) then locals s ! index else NoRef)"
| "frameRef s (ArkCapture index) = (if index < length (captures s) then captures s ! index else NoRef)"
| "frameRef s (ArkProperty obj prop) = NoRef"

fun isArkProperty :: "lexp \<Rightarrow> bool" where
  "isArkProperty (ArkProperty obj prop) = True"
| "isArkProperty l = False"

section \<open>Example programs and states\<close>

text \<open>
  A frame with one local \<^verbatim>\<open>x\<close> bound to a value, as a call with one parameter and
  one argument makes it.
\<close>

definition oneLocal :: "val \<Rightarrow> state" where
  "oneLocal v = (let (ls, s) = makeLocals [''x''] [v] newArkState in push ls s)"

text \<open>\<^verbatim>\<open>{}.p := 1\<close>: an assignment to a property the object does not have.\<close>

definition setAbsentProperty :: exp where
  "setAbsentProperty =
     ArkSet (ArkProperty (ArkObjectLiteral []) ''p'') (ArkLiteral (ArkNumberVal 1))"

text \<open>
  \<^verbatim>\<open>{p: (fn (x) {x})()}.p\<close>: the parameter \<^verbatim>\<open>x\<close> has no argument, so the call's value, and
  with it the property \<^verbatim>\<open>p\<close>, is \<^verbatim>\<open>ArkUndefined\<close>.
\<close>

definition undefinedProperty :: exp where
  "undefinedProperty =
     Lexp (ArkProperty
       (ArkObjectLiteral [(''p'', ArkCall (ArkFn [''x''] [] (Lexp (ArkLocal 0))) [])]) ''p'')"

text \<open>An object with the properties \<^verbatim>\<open>x\<close> and \<^verbatim>\<open>u\<close>, at address 0.\<close>

definition pointObject :: state where
  "pointObject = snd (newArkObject [''x'' \<mapsto> ArkNumberVal 1, ''u'' \<mapsto> ArkUndefined] newArkState)"

text \<open>
  \<^verbatim>\<open>let l = [1, 2] in let it = l.iter() in [it(), it(), it(), it()]\<close>: the results of four
  invocations of one iterator, collected in a list.
\<close>

definition fourCalls :: exp where
  "fourCalls =
     ArkLet [(''l'', ArkListLiteral [ArkLiteral (ArkNumberVal 1), ArkLiteral (ArkNumberVal 2)])]
       (ArkLet [(''it'', ArkCall (Lexp (ArkProperty (Lexp (ArkLocal 0)) ''iter'')) [])]
          (ArkListLiteral
             [ArkCall (Lexp (ArkLocal 1)) [], ArkCall (Lexp (ArkLocal 1)) [],
              ArkCall (Lexp (ArkLocal 1)) [], ArkCall (Lexp (ArkLocal 1)) []]))"

text \<open>
  Two iterators of the same list; the second is used only after the first is exhausted.
\<close>

definition twoIterators :: exp where
  "twoIterators =
     ArkLet [(''l'', ArkListLiteral [ArkLiteral (ArkNumberVal 1), ArkLiteral (ArkNumberVal 2)])]
       (ArkLet [(''it'', ArkCall (Lexp (ArkProperty (Lexp (ArkLocal 0)) ''iter'')) []),
                (''again'', ArkCall (Lexp (ArkProperty (Lexp (ArkLocal 0)) ''iter'')) [])]
          (ArkListLiteral
             [ArkCall (Lexp (ArkLocal 1)) [], ArkCall (Lexp (ArkLocal 1)) [],
              ArkCall (Lexp (ArkLocal 1)) [],
              ArkCall (Lexp (ArkLocal 2)) [], ArkCall (Lexp (ArkLocal 2)) [],
              ArkCall (Lexp (ArkLocal 2)) []]))"

text \<open>
  \<^verbatim>\<open>loop { let x = break 1 in x }\<close>, and the same followed by \<^verbatim>\<open>let y = 2 in y\<close>, where the
  front end gives \<^verbatim>\<open>y\<close> the index 0: the frame is empty when the \<^verbatim>\<open>let\<close> of \<^verbatim>\<open>y\<close> begins, if
  every \<^verbatim>\<open>let\<close> before it has removed its slots.
\<close>

definition breakInInitializer :: exp where
  "breakInInitializer =
     ArkLoop (ArkLet [(''x'', ArkBreak (ArkLiteral (ArkNumberVal 1)))] (Lexp (ArkLocal 0)))"

definition letAfterLeak :: exp where
  "letAfterLeak =
     ArkSequence
       [breakInInitializer,
        ArkLet [(''y'', ArkLiteral (ArkNumberVal 2))] (Lexp (ArkLocal 0))]"

text \<open>
  \<^verbatim>\<open>ArkNumber(7)\<close> three times.  The first object is reclaimed before the second call,
  and the registry's callback for it runs between the second and the third.
\<close>

definition staleFinalization :: "addr \<times> addr \<times> interning" where
  "staleFinalization =
     (let (a, t1) = ArkNumber 7 noInterning;
          t2 = reclaim a t1;
          (b, t3) = ArkNumber 7 t2;
          t4 = finalizationCallback a t3;
          (c, t5) = ArkNumber 7 t4
      in (b, c, t5))"

text \<open>
  In a frame whose local \<open>i\<close> is a variable: \<^verbatim>\<open>let f = fn () {x} in (x := v; f())\<close>,
  where \<^verbatim>\<open>x\<close> is that local, captured by \<^verbatim>\<open>f\<close> as its capture 0, and \<open>k\<close> is the index
  of \<^verbatim>\<open>f\<close>.  \<open>captureExample\<close> is the whole program
  \<^verbatim>\<open>let x = 0 in let f = fn () {x} in (x := 5; f())\<close>.
\<close>

definition captureThenMutate :: "nat \<Rightarrow> nat \<Rightarrow> val \<Rightarrow> exp" where
  "captureThenMutate i k v =
     ArkLet [(''f'', ArkFn [] [ArkLocal i] (Lexp (ArkCapture 0)))]
       (ArkSequence [ArkSet (ArkLocal i) (ArkLiteral v), ArkCall (Lexp (ArkLocal k)) []])"

definition captureExample :: exp where
  "captureExample =
     ArkLet [(''x'', ArkLiteral (ArkNumberVal 0))] (captureThenMutate 0 1 (ArkNumberVal 5))"




text \<open>
  The same with a closure inside the closure:
  \<^verbatim>\<open>let f = fn () { fn () {x} } in (x := v; f()())\<close>.  The inner function literal lists
  capture 0 of the outer closure as its own capture 0.
\<close>

definition nestedCaptureThenMutate :: "nat \<Rightarrow> nat \<Rightarrow> val \<Rightarrow> exp" where
  "nestedCaptureThenMutate i k v =
     ArkLet [(''f'', ArkFn [] [ArkLocal i] (ArkFn [] [ArkCapture 0] (Lexp (ArkCapture 0))))]
       (ArkSequence
          [ArkSet (ArkLocal i) (ArkLiteral v),
           ArkCall (ArkCall (Lexp (ArkLocal k)) []) []])"

text \<open>
  A captured property:
  \<^verbatim>\<open>let o = {p: 0} in let f = fn () {o.p} in (o.p := 5; f())\<close>, where the capture list of
  \<^verbatim>\<open>f\<close> is the property node \<^verbatim>\<open>o.p\<close>.
\<close>

definition propertyCaptureExample :: exp where
  "propertyCaptureExample =
     ArkLet [(''o'', ArkObjectLiteral [(''p'', ArkLiteral (ArkNumberVal 0))])]
       (ArkLet [(''f'', ArkFn [] [ArkProperty (Lexp (ArkLocal 0)) ''p''] (Lexp (ArkCapture 0)))]
          (ArkSequence
             [ArkSet (ArkProperty (Lexp (ArkLocal 0)) ''p'') (ArkLiteral (ArkNumberVal 5)),
              ArkCall (Lexp (ArkLocal 1)) []]))"






section \<open>Properties of the frame and of allocation\<close>

text \<open>
  \<^verbatim>\<open>new ArkValRef\<close> takes the next free addresses in order and touches nothing else:
  neither the frame nor an older slot.
\<close>

lemma newArkValRefs_frame:
  "newArkValRefs vs s = (rs, s') \<Longrightarrow>
     locals s' = locals s \<and> captures s' = captures s \<and> properties s' = properties s
     \<and> lists s' = lists s \<and> generators s' = generators s
     \<and> nextAddr s' = nextAddr s + length vs"
proof (induction vs arbitrary: s rs s')
  case Nil
  then show ?case by simp
next
  case (Cons v vs)
  obtain r s1 where r: "newArkValRef v s = (r, s1)" by force
  obtain rs' s2 where rs: "newArkValRefs vs s1 = (rs', s2)" by force
  from Cons.prems r rs have s': "s' = s2" by simp
  from r have "locals s1 = locals s \<and> captures s1 = captures s \<and> properties s1 = properties s
     \<and> lists s1 = lists s \<and> generators s1 = generators s \<and> nextAddr s1 = Suc (nextAddr s)"
    by (auto simp: newArkValRef_def orArkNull_def)
  with Cons.IH [OF rs] s' show ?case by simp
qed

lemma newArkValRefs_refs:
  "newArkValRefs vs s = (rs, s') \<Longrightarrow>
     length rs = length vs \<and> (\<forall>i<length vs. rs ! i = ArkValRef (nextAddr s + i))
     \<and> (\<forall>a<nextAddr s. refs s' a = refs s a)
     \<and> (\<forall>i<length vs. refs s' (nextAddr s + i) = orArkNull (vs ! i))"
proof (induction vs arbitrary: s rs s')
  case Nil
  then show ?case by simp
next
  case (Cons v vs)
  obtain r s1 where r: "newArkValRef v s = (r, s1)" by force
  obtain rs' s2 where rs: "newArkValRefs vs s1 = (rs', s2)" by force
  from Cons.prems r rs have eq: "s' = s2" "rs = r # rs'" by simp_all
  from r have s1: "r = ArkValRef (nextAddr s)" "nextAddr s1 = Suc (nextAddr s)"
    "refs s1 = (refs s)(nextAddr s := orArkNull v)"
    by (auto simp: newArkValRef_def orArkNull_def)
  note IH = Cons.IH [OF rs]
  have a: "length rs = length (v # vs) \<and> (\<forall>i<length (v # vs). rs ! i = ArkValRef (nextAddr s + i))"
    using IH eq s1 by (auto simp: nth_Cons split: nat.splits)
  have b: "\<forall>a<nextAddr s. refs s' a = refs s a"
    using IH eq s1 by simp
  have c: "\<forall>i<length (v # vs). refs s' (nextAddr s + i) = orArkNull ((v # vs) ! i)"
  proof (intro allI impI)
    fix i assume i: "i < length (v # vs)"
    show "refs s' (nextAddr s + i) = orArkNull ((v # vs) ! i)"
    proof (cases i)
      case 0
      then show ?thesis using IH eq s1 by simp
    next
      case (Suc j)
      with i have "j < length vs" by simp
      with IH have "refs s2 (nextAddr s1 + j) = orArkNull (vs ! j)" by blast
      then show ?thesis using Suc eq s1 by simp
    qed
  qed
  from a b c show ?case by blast
qed


lemma makeLocals_spec:
  assumes "makeLocals names vals s = (ls, s')"
  shows "length ls = max (length names) (length vals)
     \<and> (\<forall>i<length ls. ls ! i = ArkValRef (nextAddr s + i))
     \<and> (\<forall>i<length ls. refs s' (nextAddr s + i) = boundVal names vals i)
     \<and> (\<forall>a<nextAddr s. refs s' a = refs s a)
     \<and> nextAddr s' = nextAddr s + length ls
     \<and> locals s' = locals s \<and> captures s' = captures s \<and> properties s' = properties s
     \<and> lists s' = lists s \<and> generators s' = generators s"
proof -
  let ?ps = "map (valOrUndefined vals) [0..<length names]"
  obtain l1 s1 where l1: "newArkValRefs ?ps s = (l1, s1)" by force
  obtain l2 s2 where l2: "newArkValRefs (drop (length names) vals) s1 = (l2, s2)" by force
  note f1 = newArkValRefs_frame [OF l1] and r1 = newArkValRefs_refs [OF l1]
  note f2 = newArkValRefs_frame [OF l2] and r2 = newArkValRefs_refs [OF l2]
  have vu: "\<And>i. valOrUndefined vals i \<noteq> JsUndefined"
    by (simp add: valOrUndefined_def)
  show ?thesis
  proof (cases "length vals > length names")
    case False
    with assms l1 have eq: "ls = l1" "s' = s1" by (simp_all add: makeLocals_def)
    from False f1 r1 vu show ?thesis
      unfolding eq by (simp add: boundVal_def orArkNull_def)
  next
    case True
    with assms l1 l2 have eq: "ls = l1 @ l2" "s' = s2" by (simp_all add: makeLocals_def)
    have len1: "length l1 = length names" using r1 by simp
    have len2: "length l2 = length vals - length names" using r2 by simp
    have n1: "nextAddr s1 = nextAddr s + length names" using f1 by simp
    have A: "length ls = max (length names) (length vals)"
      using True len1 len2 eq by simp
    have B: "\<forall>i<length ls. ls ! i = ArkValRef (nextAddr s + i)"
    proof (intro allI impI)
      fix i assume "i < length ls"
      show "ls ! i = ArkValRef (nextAddr s + i)"
      proof (cases "i < length names")
        case True
        then show ?thesis using r1 len1 eq by (simp add: nth_append)
      next
        case False
        with \<open>i < length ls\<close> A \<open>length names < length vals\<close>
        have "i - length names < length (drop (length names) vals)" by simp
        with r2 have "l2 ! (i - length names) = ArkValRef (nextAddr s1 + (i - length names))" by blast
        then show ?thesis using False len1 eq n1 by (simp add: nth_append)
      qed
    qed
    have C: "\<forall>i<length ls. refs s' (nextAddr s + i) = boundVal names vals i"
    proof (intro allI impI)
      fix i assume "i < length ls"
      show "refs s' (nextAddr s + i) = boundVal names vals i"
      proof (cases "i < length names")
        case True
        then have "nextAddr s + i < nextAddr s1" using n1 by simp
        with r2 have "refs s2 (nextAddr s + i) = refs s1 (nextAddr s + i)" by blast
        moreover have "refs s1 (nextAddr s + i) = valOrUndefined vals i"
          using r1 True vu by (simp add: orArkNull_def)
        ultimately show ?thesis using True eq by (simp add: boundVal_def)
      next
        case False
        with \<open>i < length ls\<close> A \<open>length names < length vals\<close>
        have j: "i - length names < length (drop (length names) vals)" by simp
        with r2 have "refs s2 (nextAddr s1 + (i - length names)) =
          orArkNull (drop (length names) vals ! (i - length names))" by blast
        then show ?thesis using False eq n1 j by (simp add: boundVal_def)
      qed
    qed
    have D: "\<forall>a<nextAddr s. refs s' a = refs s a"
      using r1 r2 n1 eq by simp
    have E: "nextAddr s' = nextAddr s + length ls"
      using f1 f2 eq len1 len2 by simp
    have F: "locals s' = locals s \<and> captures s' = captures s \<and> properties s' = properties s
         \<and> lists s' = lists s \<and> generators s' = generators s"
      using f1 f2 eq by simp
    from A B C D E F show ?thesis
      by blast
  qed
qed


lemma bindArgsToParams_length:
  "length (bindArgsToParams params args) =
     (if length params < length args then Suc (length params) else length params)"
  by (simp add: bindArgsToParams_def Let_def)

lemma bindArgsToParams_nth:
  "i < length params \<Longrightarrow>
     bindArgsToParams params args ! i = ValRef (if i < length args then args ! i else Null)"
  by (simp add: bindArgsToParams_def Let_def nth_append)

lemma bindArgsToParams_rest:
  "length params < length args \<Longrightarrow>
     bindArgsToParams params args ! length params = ValRef (ListLiteral (drop (length params) args))"
  by (simp add: bindArgsToParams_def Let_def nth_append)

text \<open>The definitions a run of a closed program unfolds.\<close>

lemmas run_simps = eval_nat_numeral newArkState_def makeLocals_def newArkValRef_def orArkNull_def
  valOrUndefined_def inFrame_def pushLets_def push_def pop_def newArkList_def newArkObject_def
  newGenerator_def generatorNext_def objGet_def objSet_def listProperties_def differentType_def

section \<open>Binding arguments to parameters\<close>

text \<open>
  C1 (as amended).  \<^verbatim>\<open>makeLocals\<close>, which \<^verbatim>\<open>ArkCall.eval\<close> uses, binds positionally into
  fresh slots, one per parameter and one per surplus argument: the frame has
  \<open>max (length names) (length vals)\<close> locals; a parameter without an argument holds
  \<open>ArkUndefined\<close>; every argument, a surplus one too, is held by the slot of its own
  position; no list is made.  \<^verbatim>\<open>bindArgsToParams\<close> of \<^verbatim>\<open>interp.ts\<close> is the one that
  collects the surplus arguments into a single \<^verbatim>\<open>List\<close> in one trailing slot, and it
  binds a parameter without an argument to the null value.
\<close>

theorem makeLocals_binds_positionally:
  assumes "makeLocals names vals s = (ls, s')"
  shows "length ls = max (length names) (length vals)
    \<and> (\<forall>i<length ls. ls ! i = ArkValRef (nextAddr s + i))
    \<and> (\<forall>i<length names. length vals \<le> i \<longrightarrow> refGet (ls ! i) s' = Inr ArkUndefined)
    \<and> (\<forall>i<length vals. vals ! i \<noteq> JsUndefined \<longrightarrow> refGet (ls ! i) s' = Inr (vals ! i))
    \<and> length (bindArgsToParams names args) =
        (if length names < length args then Suc (length names) else length names)
    \<and> (\<forall>i<length names. bindArgsToParams names args ! i =
          ValRef (if i < length args then args ! i else Null))
    \<and> (length names < length args \<longrightarrow>
          bindArgsToParams names args ! length names =
            ValRef (ListLiteral (drop (length names) args)))"
proof -
  note spec = makeLocals_spec [OF assms]
  have len: "length ls = max (length names) (length vals)" using spec by blast
  have slot: "\<And>i. i < length ls \<Longrightarrow> refGet (ls ! i) s' = Inr (boundVal names vals i)"
  proof -
    fix i assume i: "i < length ls"
    with spec have "ls ! i = ArkValRef (nextAddr s + i)"
      and "refs s' (nextAddr s + i) = boundVal names vals i" by blast+
    then show "refGet (ls ! i) s' = Inr (boundVal names vals i)" by simp
  qed
  have missing: "\<forall>i<length names. length vals \<le> i \<longrightarrow> refGet (ls ! i) s' = Inr ArkUndefined"
  proof (intro allI impI)
    fix i assume "i < length names" "length vals \<le> i"
    then show "refGet (ls ! i) s' = Inr ArkUndefined"
      using slot [of i] len by (simp add: boundVal_def valOrUndefined_def orArkNull_def)
  qed
  have given: "\<forall>i<length vals. vals ! i \<noteq> JsUndefined \<longrightarrow> refGet (ls ! i) s' = Inr (vals ! i)"
  proof (intro allI impI)
    fix i assume "i < length vals" "vals ! i \<noteq> JsUndefined"
    then show "refGet (ls ! i) s' = Inr (vals ! i)"
      using slot [of i] len by (simp add: boundVal_def valOrUndefined_def orArkNull_def)
  qed
  from len spec missing given show ?thesis
    using bindArgsToParams_length [of names args] bindArgsToParams_nth [of _ names args]
      bindArgsToParams_rest [of names args]
    by blast
qed

theorem makeLocals_binds_positionally_witness:
  "(let r = makeLocals [''a'', ''b''] [ArkNumberVal 1] newArkState;
        q = makeLocals [''a''] [ArkNumberVal 1, ArkNumberVal 2, ArkNumberVal 3] newArkState
    in length (fst r) = 2
       \<and> fst r ! 1 = ArkValRef 1
       \<and> refGet (fst r ! 0) (snd r) = Inr (ArkNumberVal 1)
       \<and> refGet (fst r ! 1) (snd r) = Inr ArkUndefined
       \<and> length (fst q) = 3
       \<and> refGet (fst q ! 2) (snd q) = Inr (ArkNumberVal 3))
   \<and> length (bindArgsToParams [''a'', ''b''] [Null]) = 2
   \<and> bindArgsToParams [''a'', ''b''] [Null] ! 1 = ValRef Null
   \<and> bindArgsToParams [''a''] [Bool True, Null, Null] ! 1 = ValRef (ListLiteral [Null, Null])"
proof -
  let ?r = "makeLocals [''a'', ''b''] [ArkNumberVal 1] newArkState"
  let ?q = "makeLocals [''a''] [ArkNumberVal 1, ArkNumberVal 2, ArkNumberVal 3] newArkState"
  have r: "?r = (fst ?r, snd ?r)" and q: "?q = (fst ?q, snd ?q)" by simp_all
  have n: "nextAddr newArkState = 0" by (simp add: newArkState_def)
  note R = makeLocals_binds_positionally [OF r, of "[Null]"]
  note Q = makeLocals_binds_positionally [OF q, of "[Bool True, Null, Null]"]
  have a1: "length (fst ?r) = 2"
    using R [THEN conjunct1] by simp
  have a2: "fst ?r ! 1 = ArkValRef 1"
    using R [THEN conjunct2, THEN conjunct1, rule_format, of 1] a1 n by simp
  have a3: "refGet (fst ?r ! 0) (snd ?r) = Inr (ArkNumberVal 1)"
    using R [THEN conjunct2, THEN conjunct2, THEN conjunct2, THEN conjunct1, rule_format, of 0]
    by simp
  have a4: "refGet (fst ?r ! 1) (snd ?r) = Inr ArkUndefined"
    using R [THEN conjunct2, THEN conjunct2, THEN conjunct1, rule_format, of 1] by simp
  have a5: "length (bindArgsToParams [''a'', ''b''] [Null]) = 2"
    using R [THEN conjunct2, THEN conjunct2, THEN conjunct2, THEN conjunct2, THEN conjunct1]
    by simp
  have a6: "bindArgsToParams [''a'', ''b''] [Null] ! 1 = ValRef Null"
    using R [THEN conjunct2, THEN conjunct2, THEN conjunct2, THEN conjunct2, THEN conjunct2,
             THEN conjunct1, rule_format, of 1]
    by simp
  have b1: "length (fst ?q) = 3"
    using Q [THEN conjunct1] by simp
  have b2: "refGet (fst ?q ! 2) (snd ?q) = Inr (ArkNumberVal 3)"
    using Q [THEN conjunct2, THEN conjunct2, THEN conjunct2, THEN conjunct1, rule_format, of 2]
    by simp
  have b3: "bindArgsToParams [''a''] [Bool True, Null, Null] ! 1 = ValRef (ListLiteral [Null, Null])"
    using Q [THEN conjunct2, THEN conjunct2, THEN conjunct2, THEN conjunct2, THEN conjunct2,
             THEN conjunct2]
    by simp
  from a1 a2 a3 a4 a5 a6 b1 b2 b3 show ?thesis by (simp add: Let_def)
qed

text \<open>
  C1 as stated fails: with one parameter and three arguments, \<^verbatim>\<open>makeLocals\<close> makes three
  locals that hold the three arguments, not two locals of which the second holds a list
  of the last two.
\<close>

theorem makeLocals_surplus_counterexample:
  "length (fst (makeLocals [''a''] [ArkNumberVal 1, ArkNumberVal 2, ArkNumberVal 3] newArkState)) = 3
   \<and> map (\<lambda>r. refGet r (snd (makeLocals [''a''] [ArkNumberVal 1, ArkNumberVal 2, ArkNumberVal 3]
                                newArkState)))
          (fst (makeLocals [''a''] [ArkNumberVal 1, ArkNumberVal 2, ArkNumberVal 3] newArkState))
      = [Inr (ArkNumberVal 1), Inr (ArkNumberVal 2), Inr (ArkNumberVal 3)]"
  by (simp add: makeLocals_def newArkValRef_def orArkNull_def newArkState_def valOrUndefined_def)

section \<open>Assignment\<close>

lemma constructor_None: "constructor v = None \<longleftrightarrow> v = JsUndefined"
  by (cases v) simp_all

lemma constructor_Null: "constructor v = Some CtorArkNullVal \<longleftrightarrow> v = ArkNullVal"
  by (cases v) simp_all

lemma differentType_ArkVal:
  "oldVal \<noteq> JsUndefined \<Longrightarrow> res \<noteq> JsUndefined \<Longrightarrow>
     differentType oldVal res =
       Inr (oldVal \<noteq> ArkUndefined \<and> oldVal \<noteq> ArkNullVal \<and> constructor res \<noteq> constructor oldVal)"
  by (cases "constructor oldVal"; cases "constructor res")
     (auto simp: differentType_def constructor_None constructor_Null)

lemma differentType_JsUndefined: "differentType JsUndefined res = Inl TypeError"
  by (simp add: differentType_def)

text \<open>
  C2 (as amended).  \<^verbatim>\<open>ArkSet.eval\<close> evaluates the lvalue to a reference, then the
  right-hand side, then reads the reference.  If that read fails, the assignment fails
  with the read's error (a property reference to a property that is absent: \<open>Invalid
  property\<close>).  If it gives \<open>oldVal\<close>, the assignment fails with \<open>Assignment to
  different type\<close>, in the state it had reached (so the reference still holds
  \<open>oldVal\<close>), exactly when \<open>oldVal\<close> is neither \<open>ArkUndefined\<close> nor the null value
  and the constructor of the new value differs from that of \<open>oldVal\<close>; otherwise the
  reference is set, the new value is the result, and reading the reference gives it.
\<close>

theorem ArkSet_eval:
  assumes "evalRef (eval n) l s = (Inr r, s1)"
    and "eval n e s1 = (Inr res, s2)"
    and "res \<noteq> JsUndefined"
  shows "eval (Suc n) (ArkSet l e) s =
      (case refGet r s2 of
         Inl err \<Rightarrow> (Inl err, s2)
       | Inr oldVal \<Rightarrow>
           if oldVal = JsUndefined then (Inl TypeError, s2)
           else if oldVal \<noteq> ArkUndefined \<and> oldVal \<noteq> ArkNullVal
                   \<and> constructor res \<noteq> constructor oldVal
           then (Inl (ArkRuntimeError ''Assignment to different type''), s2)
           else refSet r res s2)
    \<and> (\<forall>oldVal. refGet r s2 = Inr oldVal \<longrightarrow>
          fst (refSet r res s2) = Inr res
          \<and> (res \<noteq> ArkUndefined \<longrightarrow> refGet r (snd (refSet r res s2)) = Inr res))"
proof
  show "eval (Suc n) (ArkSet l e) s =
      (case refGet r s2 of
         Inl err \<Rightarrow> (Inl err, s2)
       | Inr oldVal \<Rightarrow>
           if oldVal = JsUndefined then (Inl TypeError, s2)
           else if oldVal \<noteq> ArkUndefined \<and> oldVal \<noteq> ArkNullVal
                   \<and> constructor res \<noteq> constructor oldVal
           then (Inl (ArkRuntimeError ''Assignment to different type''), s2)
           else refSet r res s2)"
  proof (cases "refGet r s2")
    case (Inl err)
    with assms show ?thesis by simp
  next
    case (Inr oldVal)
    show ?thesis
    proof (cases "oldVal = JsUndefined")
      case True
      with assms Inr show ?thesis by (simp add: differentType_JsUndefined)
    next
      case False
      with assms Inr show ?thesis by (simp add: differentType_ArkVal)
    qed
  qed
next
  show "\<forall>oldVal. refGet r s2 = Inr oldVal \<longrightarrow>
          fst (refSet r res s2) = Inr res
          \<and> (res \<noteq> ArkUndefined \<longrightarrow> refGet r (snd (refSet r res s2)) = Inr res)"
    using assms(3) by (cases r) (auto simp: objGet_def objSet_def)
qed

lemma oneLocal_simps:
  "locals (oneLocal v) = [ArkValRef 0]"
  "refs (oneLocal v) 0 = (if v = JsUndefined then ArkUndefined else v)"
  by (simp_all add: oneLocal_def makeLocals_def newArkValRef_def orArkNull_def newArkState_def push_def
      valOrUndefined_def)

theorem ArkSet_eval_witness:
  "eval 2 (ArkSet (ArkLocal 0) (ArkLiteral (ArkNumberVal 5))) (oneLocal (ArkNumberVal 0))
     = (Inr (ArkNumberVal 5), (oneLocal (ArkNumberVal 0))\<lparr>refs := (refs (oneLocal (ArkNumberVal 0)))(0 := ArkNumberVal 5)\<rparr>)
   \<and> eval 2 (ArkSet (ArkLocal 0) (ArkLiteral (ArkNumberVal 5))) (oneLocal (ArkStringVal ''a''))
     = (Inl (ArkRuntimeError ''Assignment to different type''), oneLocal (ArkStringVal ''a''))
   \<and> eval 2 (ArkSet (ArkLocal 0) (ArkLiteral (ArkNumberVal 5))) (oneLocal ArkNullVal)
     = (Inr (ArkNumberVal 5), (oneLocal ArkNullVal)\<lparr>refs := (refs (oneLocal ArkNullVal))(0 := ArkNumberVal 5)\<rparr>)"
proof -
  have r: "\<And>v. evalRef (eval 1) (ArkLocal 0) (oneLocal v) = (Inr (ArkValRef 0), oneLocal v)"
    by (simp add: oneLocal_simps)
  have e: "\<And>s. eval 1 (ArkLiteral (ArkNumberVal 5)) s = (Inr (ArkNumberVal 5), s)"
    by (simp add: eval_nat_numeral)
  have two: "2 = Suc 1" by simp
  show ?thesis
    using ArkSet_eval [OF r e, of "ArkNumberVal 0", THEN conjunct1]
      ArkSet_eval [OF r e, of "ArkStringVal ''a''", THEN conjunct1]
      ArkSet_eval [OF r e, of ArkNullVal, THEN conjunct1]
    unfolding two by (simp add: oneLocal_simps)
qed

text \<open>
  C2 as stated fails: the property \<^verbatim>\<open>p\<close> of \<^verbatim>\<open>{}\<close> holds no value, so by the claim the
  assignment would set it and give 1; \<^verbatim>\<open>ref.get\<close> throws instead.
\<close>

theorem ArkSet_absent_property_counterexample:
  "fst (eval 4 setAbsentProperty newArkState) = Inl (ArkRuntimeError (invalidProperty ''p''))
   \<and> fst (eval 4 setAbsentProperty newArkState) \<noteq> Inr (ArkNumberVal 1)
   \<and> fst (eval 4 setAbsentProperty newArkState)
       \<noteq> Inl (ArkRuntimeError ''Assignment to different type'')"
  unfolding setAbsentProperty_def
  by (simp add: eval_nat_numeral newArkObject_def newArkState_def objGet_def
      invalidProperty_def)

section \<open>Closures\<close>

lemma evalRefs_locals:
  "\<forall>i\<in>set is. i < length (locals s) \<Longrightarrow>
     evalRefs ev (map ArkLocal is) s = (Inr (map (\<lambda>i. locals s ! i) is), s)"
  by (induction "is") simp_all

lemma call_reads_capture:
  assumes "j < length caps" and "caps ! j = ArkValRef a" and "a < nextAddr s"
  shows "fst (call (eval (Suc n)) (ArkClosure ps caps (Lexp (ArkCapture j))) args s)
           = Inr (refs s a)"
proof -
  obtain ls s1 where m: "makeLocals ps args s = (ls, s1)" by force
  from makeLocals_spec [OF m] assms(3) have "refs s1 a = refs s a" by blast
  with m assms(1,2) show ?thesis by (simp add: inFrame_def)
qed

lemma captureThenMutate_run:
  assumes "i < length (locals s)" and "locals s ! i = ArkValRef a" and "a < nextAddr s"
    and "differentType (refs s a) v = Inr False"
  shows "fst (eval (Suc (Suc (Suc (Suc n)))) (captureThenMutate i (length (locals s)) v) s) = Inr v"
proof -
  have ne: "a \<noteq> nextAddr s" using assms(3) by simp
  show ?thesis
    using assms ne unfolding captureThenMutate_def
    by (simp add: makeLocals_def newArkValRef_def orArkNull_def valOrUndefined_def inFrame_def pushLets_def
        push_def pop_def nth_append)
qed

lemma evalRef_frame:
  "\<not> isArkProperty l \<Longrightarrow> evalRef ev l s = (Inr (frameRef s l), s)"
  by (cases l) simp_all

lemma evalRefs_frame:
  "\<forall>l\<in>set caps. \<not> isArkProperty l \<Longrightarrow>
     evalRefs ev caps s = (Inr (map (frameRef s) caps), s)"
  by (induction caps) (simp_all add: evalRef_frame)

lemma ArkFn_eval_Inr:
  "eval (Suc n) (ArkFn ps caps body) s = (Inr c, s') \<longleftrightarrow>
     (\<exists>rs. evalRefs (eval n) caps s = (Inr rs, s') \<and> c = ArkClosure ps rs body)"
proof (cases "evalRefs (eval n) caps s")
  case (Pair r s1)
  then show ?thesis by (cases r) auto
qed

lemma refGet_frame:
  "refGet r (s\<lparr>locals := ls, captures := cs\<rparr>) = refGet r s"
  by (cases r) (simp_all add: objGet_def)

lemma closureResult_refGet:
  "fst (closureResult (refGet r s, s')) = refGet r s"
  by (cases r) simp_all

lemma call_reads_any_capture:
  assumes "j < length caps" and "\<forall>b. caps ! j = ArkValRef b \<longrightarrow> b < nextAddr s"
  shows "fst (call (eval (Suc n)) (ArkClosure ps caps (Lexp (ArkCapture j))) args s)
           = refGet (caps ! j) s"
proof -
  obtain ls s1 where m: "makeLocals ps args s = (ls, s1)" by force
  note spec = makeLocals_spec [OF m]
  have "refGet (caps ! j) s1 = refGet (caps ! j) s"
  proof (cases "caps ! j")
    case (ArkValRef b)
    with assms(2) spec show ?thesis by simp
  next
    case (ArkPropertyRef ob p)
    with spec show ?thesis by (simp add: objGet_def)
  next
    case NoRef
    then show ?thesis by simp
  qed
  with m assms(1) show ?thesis
    by (simp add: inFrame_def refGet_frame closureResult_refGet)
qed

lemma nestedCaptureThenMutate_run:
  assumes "i < length (locals s)" and "locals s ! i = ArkValRef a" and "a < nextAddr s"
    and "differentType (refs s a) v = Inr False"
  shows "fst (eval (Suc (Suc (Suc (Suc (Suc n))))) (nestedCaptureThenMutate i (length (locals s)) v) s)
           = Inr v"
proof -
  have ne: "a \<noteq> nextAddr s" using assms(3) by simp
  show ?thesis
    using assms ne unfolding nestedCaptureThenMutate_def
    by (simp add: makeLocals_def newArkValRef_def orArkNull_def valOrUndefined_def inFrame_def
        pushLets_def push_def pop_def nth_append)
qed

text \<open>
  C3.  Let local \<open>i\<close> of the enclosing frame be the slot at address \<open>a\<close>.  A function
  literal that lists that local as a capture evaluates to a closure that holds the
  reference \<open>ArkValRef a\<close> itself, and evaluating it changes nothing in the store: no
  value is copied.  The same holds for every capture list: the closure's captures are
  the references that the expressions of the list evaluate to as references in the
  enclosing frame, in the order of the list, each evaluated in the state the one before
  has left: for a local or a capture node the frame's own reference, for a property
  node the property reference to the object its expression evaluates to.  Whatever a
  captured reference holds when the closure is called, in any later state \<open>s'\<close>, is what a
  body that reads the capture gives.  So in \<^verbatim>\<open>let f = fn () {x} in (x := v; f())\<close> the
  call gives \<open>v\<close>, the value assigned after the closure was made (\<open>v\<close> being one the
  assignment's guard lets through); so it does through a closure nested in the closure,
  which captures the capture; and so it does for a captured property.
\<close>

theorem closures_capture_by_reference:
  assumes "i < length (locals s)" and "locals s ! i = ArkValRef a" and "a < nextAddr s"
    and "differentType (refs s a) v = Inr False"
  shows "eval (Suc n) (ArkFn ps [ArkLocal i] body) s = (Inr (ArkClosure ps [ArkValRef a] body), s)
    \<and> (\<forall>is. (\<forall>j\<in>set is. j < length (locals s)) \<longrightarrow>
          eval (Suc n) (ArkFn ps (map ArkLocal is) body) s
            = (Inr (ArkClosure ps (map (\<lambda>j. locals s ! j) is) body), s))
    \<and> (\<forall>s' args. a < nextAddr s' \<longrightarrow>
          fst (call (eval (Suc n)) (ArkClosure ps [ArkValRef a] (Lexp (ArkCapture 0))) args s')
            = Inr (refs s' a))
    \<and> fst (eval (Suc (Suc (Suc (Suc n)))) (captureThenMutate i (length (locals s)) v) s) = Inr v
    \<and> (\<forall>caps. (\<forall>l\<in>set caps. \<not> isArkProperty l) \<longrightarrow>
          eval (Suc n) (ArkFn ps caps body) s
            = (Inr (ArkClosure ps (map (frameRef s) caps) body), s))
    \<and> (\<forall>l caps r rs s1 s2.
          evalRef (eval n) l s = (Inr r, s1) \<longrightarrow>
          eval (Suc n) (ArkFn ps caps body) s1 = (Inr (ArkClosure ps rs body), s2) \<longrightarrow>
          eval (Suc n) (ArkFn ps (l # caps) body) s = (Inr (ArkClosure ps (r # rs) body), s2))
    \<and> (\<forall>e p ob s1.
          eval n e s = (Inr ob, s1) \<longrightarrow> isArkAbstractObjectBase ob \<longrightarrow>
          eval (Suc n) (ArkFn ps [ArkProperty e p] body) s
            = (Inr (ArkClosure ps [ArkPropertyRef ob p] body), s1))
    \<and> (\<forall>s' args caps j.
          j < length caps \<longrightarrow> (\<forall>b. caps ! j = ArkValRef b \<longrightarrow> b < nextAddr s') \<longrightarrow>
          fst (call (eval (Suc n)) (ArkClosure ps caps (Lexp (ArkCapture j))) args s')
            = refGet (caps ! j) s')
    \<and> fst (eval (Suc (Suc (Suc (Suc (Suc n)))))
             (nestedCaptureThenMutate i (length (locals s)) v) s) = Inr v
    \<and> fst (eval 6 propertyCaptureExample newArkState) = Inr (ArkNumberVal 5)"
proof -
  have A: "eval (Suc n) (ArkFn ps [ArkLocal i] body) s
             = (Inr (ArkClosure ps [ArkValRef a] body), s)"
    using assms(1,2) by simp
  have B: "\<forall>is. (\<forall>j\<in>set is. j < length (locals s)) \<longrightarrow>
          eval (Suc n) (ArkFn ps (map ArkLocal is) body) s
            = (Inr (ArkClosure ps (map (\<lambda>j. locals s ! j) is) body), s)"
    by (simp add: evalRefs_locals)
  have C: "\<forall>s' args. a < nextAddr s' \<longrightarrow>
          fst (call (eval (Suc n)) (ArkClosure ps [ArkValRef a] (Lexp (ArkCapture 0))) args s')
            = Inr (refs s' a)"
  proof (intro allI impI)
    fix s' :: state and args :: "val list" assume "a < nextAddr s'"
    then show "fst (call (eval (Suc n)) (ArkClosure ps [ArkValRef a] (Lexp (ArkCapture 0))) args s')
            = Inr (refs s' a)"
      using call_reads_capture [of 0 "[ArkValRef a]" a s' n ps args] by simp
  qed
  have D: "fst (eval (Suc (Suc (Suc (Suc n)))) (captureThenMutate i (length (locals s)) v) s)
             = Inr v"
    using captureThenMutate_run [OF assms] .
  have E: "\<forall>caps. (\<forall>l\<in>set caps. \<not> isArkProperty l) \<longrightarrow>
          eval (Suc n) (ArkFn ps caps body) s
            = (Inr (ArkClosure ps (map (frameRef s) caps) body), s)"
    by (simp add: evalRefs_frame)
  have F: "\<forall>l caps r rs s1 s2.
          evalRef (eval n) l s = (Inr r, s1) \<longrightarrow>
          eval (Suc n) (ArkFn ps caps body) s1 = (Inr (ArkClosure ps rs body), s2) \<longrightarrow>
          eval (Suc n) (ArkFn ps (l # caps) body) s = (Inr (ArkClosure ps (r # rs) body), s2)"
  proof (intro allI impI)
    fix l caps r rs s1 s2
    assume 1: "evalRef (eval n) l s = (Inr r, s1)"
      and 2: "eval (Suc n) (ArkFn ps caps body) s1 = (Inr (ArkClosure ps rs body), s2)"
    from 2 have "evalRefs (eval n) caps s1 = (Inr rs, s2)"
      unfolding ArkFn_eval_Inr by simp
    with 1 show "eval (Suc n) (ArkFn ps (l # caps) body) s
                   = (Inr (ArkClosure ps (r # rs) body), s2)"
      by simp
  qed
  have G: "\<forall>e p ob s1.
          eval n e s = (Inr ob, s1) \<longrightarrow> isArkAbstractObjectBase ob \<longrightarrow>
          eval (Suc n) (ArkFn ps [ArkProperty e p] body) s
            = (Inr (ArkClosure ps [ArkPropertyRef ob p] body), s1)"
    by simp
  have H: "\<forall>s' args caps j.
          j < length caps \<longrightarrow> (\<forall>b. caps ! j = ArkValRef b \<longrightarrow> b < nextAddr s') \<longrightarrow>
          fst (call (eval (Suc n)) (ArkClosure ps caps (Lexp (ArkCapture j))) args s')
            = refGet (caps ! j) s'"
    using call_reads_any_capture by blast
  have I: "fst (eval (Suc (Suc (Suc (Suc (Suc n)))))
             (nestedCaptureThenMutate i (length (locals s)) v) s) = Inr v"
    using nestedCaptureThenMutate_run [OF assms] .
  have J: "fst (eval 6 propertyCaptureExample newArkState) = Inr (ArkNumberVal 5)"
    unfolding propertyCaptureExample_def by (simp add: run_simps)
  show ?thesis
    by (intro conjI) (fact A B C D E F G H I J)+
qed

theorem closures_capture_by_reference_witness:
  "eval (Suc 0) (ArkFn [] [ArkLocal 0] (Lexp (ArkCapture 0))) (oneLocal (ArkNumberVal 0))
     = (Inr (ArkClosure [] [ArkValRef 0] (Lexp (ArkCapture 0))), oneLocal (ArkNumberVal 0))
   \<and> eval (Suc 0) (ArkFn [] (map ArkLocal [0, 0]) (Lexp (ArkCapture 1))) (oneLocal (ArkNumberVal 0))
     = (Inr (ArkClosure [] [ArkValRef 0, ArkValRef 0] (Lexp (ArkCapture 1))),
        oneLocal (ArkNumberVal 0))
   \<and> fst (call (eval (Suc 0)) (ArkClosure [] [ArkValRef 0] (Lexp (ArkCapture 0))) []
             (oneLocal (ArkStringVal ''later'')))
       = Inr (ArkStringVal ''later'')
   \<and> fst (eval (Suc (Suc (Suc (Suc 0)))) (captureThenMutate 0 1 (ArkNumberVal 5))
             (oneLocal (ArkNumberVal 0)))
       = Inr (ArkNumberVal 5)
   \<and> eval (Suc 0) (ArkFn [] [ArkCapture 0, ArkLocal 0, ArkCapture 0] (Lexp (ArkCapture 0)))
        (oneLocal (ArkNumberVal 0))
     = (Inr (ArkClosure [] [NoRef, ArkValRef 0, NoRef] (Lexp (ArkCapture 0))),
        oneLocal (ArkNumberVal 0))
   \<and> eval (Suc (Suc 0)) (ArkFn [] [ArkProperty (ArkLiteral (ArkNumberVal 3)) ''p'']
                              (Lexp (ArkCapture 0)))
        (oneLocal (ArkNumberVal 0))
     = (Inr (ArkClosure [] [ArkPropertyRef (ArkNumberVal 3) ''p''] (Lexp (ArkCapture 0))),
        oneLocal (ArkNumberVal 0))
   \<and> fst (call (eval (Suc 0))
             (ArkClosure [] [ArkValRef 0, ArkPropertyRef (ArkObject 0) ''x'']
                (Lexp (ArkCapture 1))) [] pointObject)
       = Inr (ArkNumberVal 1)
   \<and> fst (eval (Suc (Suc (Suc (Suc (Suc 0))))) (nestedCaptureThenMutate 0 1 (ArkNumberVal 5))
             (oneLocal (ArkNumberVal 0)))
       = Inr (ArkNumberVal 5)
   \<and> fst (eval 5 captureExample newArkState) = Inr (ArkNumberVal 5)"
proof -
  let ?s = "oneLocal (ArkNumberVal 0)"
  have n: "\<And>v. nextAddr (oneLocal v) = 1"
    by (simp add: oneLocal_def makeLocals_def newArkValRef_def orArkNull_def newArkState_def
        push_def)
  have caps: "captures ?s = []"
    by (simp add: oneLocal_def makeLocals_def newArkValRef_def orArkNull_def newArkState_def
        push_def valOrUndefined_def)
  have h1: "0 < length (locals ?s)" and h2: "locals ?s ! 0 = ArkValRef 0"
    and h3: "0 < nextAddr ?s"
    and h4: "differentType (refs ?s 0) (ArkNumberVal 5) = Inr False"
    by (simp_all add: oneLocal_simps n differentType_def)
  note T = closures_capture_by_reference [OF h1 h2 h3 h4]
  note T0 = T [of 0 "[]" "Lexp (ArkCapture 0)"]
  note T1 = T [of "Suc 0" "[]" "Lexp (ArkCapture 0)"]
  note rest4 = T0 [THEN conjunct2, THEN conjunct2, THEN conjunct2, THEN conjunct2]
  have a: "eval (Suc 0) (ArkFn [] [ArkLocal 0] (Lexp (ArkCapture 0))) ?s
     = (Inr (ArkClosure [] [ArkValRef 0] (Lexp (ArkCapture 0))), ?s)"
    using T0 [THEN conjunct1] .
  have b: "eval (Suc 0) (ArkFn [] (map ArkLocal [0, 0]) (Lexp (ArkCapture 1))) ?s
     = (Inr (ArkClosure [] [ArkValRef 0, ArkValRef 0] (Lexp (ArkCapture 1))), ?s)"
    using T [of 0 "[]" "Lexp (ArkCapture 1)", THEN conjunct2, THEN conjunct1, rule_format,
             of "[0, 0]"]
    by (simp add: oneLocal_simps)
  have c: "fst (call (eval (Suc 0)) (ArkClosure [] [ArkValRef 0] (Lexp (ArkCapture 0))) []
             (oneLocal (ArkStringVal ''later'')))
       = Inr (ArkStringVal ''later'')"
    using T0 [THEN conjunct2, THEN conjunct2, THEN conjunct1, rule_format,
              of "oneLocal (ArkStringVal ''later'')" "[]"]
    by (simp add: n oneLocal_simps)
  have d: "fst (eval (Suc (Suc (Suc (Suc 0)))) (captureThenMutate 0 1 (ArkNumberVal 5)) ?s)
       = Inr (ArkNumberVal 5)"
    using T0 [THEN conjunct2, THEN conjunct2, THEN conjunct2, THEN conjunct1]
    by (simp add: oneLocal_simps)
  have e: "eval (Suc 0) (ArkFn [] [ArkCapture 0, ArkLocal 0, ArkCapture 0] (Lexp (ArkCapture 0))) ?s
     = (Inr (ArkClosure [] [NoRef, ArkValRef 0, NoRef] (Lexp (ArkCapture 0))), ?s)"
    using rest4 [THEN conjunct1, rule_format, of "[ArkCapture 0, ArkLocal 0, ArkCapture 0]"]
    by (simp add: oneLocal_simps caps)
  have lit: "eval (Suc 0) (ArkLiteral (ArkNumberVal 3)) ?s = (Inr (ArkNumberVal 3), ?s)"
    by simp
  have f: "eval (Suc (Suc 0)) (ArkFn [] [ArkProperty (ArkLiteral (ArkNumberVal 3)) ''p'']
                              (Lexp (ArkCapture 0))) ?s
     = (Inr (ArkClosure [] [ArkPropertyRef (ArkNumberVal 3) ''p''] (Lexp (ArkCapture 0))), ?s)"
    using T1 [THEN conjunct2, THEN conjunct2, THEN conjunct2, THEN conjunct2, THEN conjunct2,
              THEN conjunct2, THEN conjunct1, rule_format, OF lit]
    by simp
  have g: "fst (call (eval (Suc 0))
             (ArkClosure [] [ArkValRef 0, ArkPropertyRef (ArkObject 0) ''x'']
                (Lexp (ArkCapture 1))) [] pointObject)
       = Inr (ArkNumberVal 1)"
    using rest4 [THEN conjunct2, THEN conjunct2, THEN conjunct2, THEN conjunct1, rule_format,
                 of 1 "[ArkValRef 0, ArkPropertyRef (ArkObject 0) ''x'']" pointObject "[]"]
    by (simp add: pointObject_def newArkObject_def newArkState_def objGet_def)
  have h: "fst (eval (Suc (Suc (Suc (Suc (Suc 0))))) (nestedCaptureThenMutate 0 1 (ArkNumberVal 5)) ?s)
       = Inr (ArkNumberVal 5)"
    using rest4 [THEN conjunct2, THEN conjunct2, THEN conjunct2, THEN conjunct2, THEN conjunct1]
    by (simp add: oneLocal_simps)
  have k: "fst (eval 5 captureExample newArkState) = Inr (ArkNumberVal 5)"
    unfolding captureExample_def captureThenMutate_def by (simp add: run_simps)
  from a b c d e f g h k show ?thesis by blast
qed

section \<open>Property references\<close>

text \<open>
  C4 (as amended).  Reading through a property reference fails with the runtime error
  \<open>Invalid property '...'\<close> exactly when the property is absent from the object's
  map or is present there holding \<open>ArkUndefined\<close> (or the host's \<^verbatim>\<open>undefined\<close>): the read
  does not tell the two apart.  Any other stored value is what the read gives.  Writing
  through the reference always succeeds, gives the value written, maps the property to
  it, inserting it if it was absent, and changes no other property of the object and no
  other object.
\<close>

theorem ArkPropertyRef_get_set:
  "(refGet (ArkPropertyRef obj prop) s = Inl (ArkRuntimeError (invalidProperty prop)))
      = (properties s obj prop \<in> {None, Some ArkUndefined, Some JsUndefined})
   \<and> (\<forall>x. properties s obj prop = Some x \<longrightarrow> x \<noteq> ArkUndefined \<longrightarrow> x \<noteq> JsUndefined
          \<longrightarrow> refGet (ArkPropertyRef obj prop) s = Inr x)
   \<and> take 16 (invalidProperty prop) = ''Invalid property''
   \<and> fst (refSet (ArkPropertyRef obj prop) v s) = Inr v
   \<and> properties (snd (refSet (ArkPropertyRef obj prop) v s)) obj = (properties s obj)(prop \<mapsto> v)
   \<and> (\<forall>other. other \<noteq> obj \<longrightarrow>
          properties (snd (refSet (ArkPropertyRef obj prop) v s)) other = properties s other)"
proof (intro conjI allI impI)
  show "(refGet (ArkPropertyRef obj prop) s = Inl (ArkRuntimeError (invalidProperty prop)))
      = (properties s obj prop \<in> {None, Some ArkUndefined, Some JsUndefined})"
    by (cases "properties s obj prop") (auto simp: objGet_def)
next
  fix x assume "properties s obj prop = Some x" "x \<noteq> ArkUndefined" "x \<noteq> JsUndefined"
  then show "refGet (ArkPropertyRef obj prop) s = Inr x"
    by (simp add: objGet_def)
next
  show "take 16 (invalidProperty prop) = ''Invalid property''"
    by (simp add: invalidProperty_def)
next
  show "fst (refSet (ArkPropertyRef obj prop) v s) = Inr v" by simp
next
  show "properties (snd (refSet (ArkPropertyRef obj prop) v s)) obj = (properties s obj)(prop \<mapsto> v)"
    by (simp add: objSet_def)
next
  fix other assume "other \<noteq> obj"
  then show "properties (snd (refSet (ArkPropertyRef obj prop) v s)) other = properties s other"
    by (simp add: objSet_def)
qed

theorem ArkPropertyRef_get_set_witness:
  "refGet (ArkPropertyRef (ArkObject 0) ''x'') pointObject = Inr (ArkNumberVal 1)
   \<and> refGet (ArkPropertyRef (ArkObject 0) ''y'') pointObject
       = Inl (ArkRuntimeError (invalidProperty ''y''))
   \<and> properties (snd (refSet (ArkPropertyRef (ArkObject 0) ''y'') (ArkNumberVal 2) pointObject))
        (ArkObject 0) ''x'' = Some (ArkNumberVal 1)
   \<and> properties (snd (refSet (ArkPropertyRef (ArkObject 0) ''y'') (ArkNumberVal 2) pointObject))
        (ArkObject 0) ''y'' = Some (ArkNumberVal 2)
   \<and> properties (snd (refSet (ArkPropertyRef (ArkObject 0) ''y'') (ArkNumberVal 2) pointObject))
        (ArkStringVal ''s'') = properties pointObject (ArkStringVal ''s'')"
proof -
  have p: "properties pointObject (ArkObject 0) = [''x'' \<mapsto> ArkNumberVal 1, ''u'' \<mapsto> ArkUndefined]"
    by (simp add: pointObject_def newArkObject_def newArkState_def)
  note T = ArkPropertyRef_get_set [of "ArkObject 0" _ pointObject]
  have a: "refGet (ArkPropertyRef (ArkObject 0) ''x'') pointObject = Inr (ArkNumberVal 1)"
    using T [of "''x''", THEN conjunct2, THEN conjunct1, rule_format, of "ArkNumberVal 1"] p
    by simp
  have b: "refGet (ArkPropertyRef (ArkObject 0) ''y'') pointObject
       = Inl (ArkRuntimeError (invalidProperty ''y''))"
    using T [of "''y''", THEN conjunct1] p by simp
  note U = T [of "''y''" "ArkNumberVal 2", THEN conjunct2, THEN conjunct2, THEN conjunct2,
              THEN conjunct2]
  have c: "properties (snd (refSet (ArkPropertyRef (ArkObject 0) ''y'') (ArkNumberVal 2) pointObject))
        (ArkObject 0) = (properties pointObject (ArkObject 0))(''y'' \<mapsto> ArkNumberVal 2)"
    using U [THEN conjunct1] .
  have d: "properties (snd (refSet (ArkPropertyRef (ArkObject 0) ''y'') (ArkNumberVal 2) pointObject))
        (ArkStringVal ''s'') = properties pointObject (ArkStringVal ''s'')"
    using U [THEN conjunct2, rule_format, of "ArkStringVal ''s''"] by simp
  from a b c d p show ?thesis by simp
qed

text \<open>
  C4 as stated fails: the object of \<open>undefinedProperty\<close> has the property \<^verbatim>\<open>p\<close>, and
  reading it fails with \<open>Invalid property 'p'\<close>.
\<close>

theorem undefined_property_counterexample:
  "fst (eval 6 undefinedProperty newArkState) = Inl (ArkRuntimeError (invalidProperty ''p''))
   \<and> properties (snd (eval 6 undefinedProperty newArkState)) (ArkObject 1) ''p''
       = Some ArkUndefined"
  unfolding undefinedProperty_def
  by (simp add: eval_nat_numeral newArkObject_def newArkState_def objGet_def makeLocals_def
      newArkValRef_def orArkNull_def valOrUndefined_def inFrame_def)

section \<open>The slots of a let\<close>





lemma setAll_frame:
  "locals (setAll (map ArkValRef as) vals s) = locals s
   \<and> nextAddr (setAll (map ArkValRef as) vals s) = nextAddr s"
proof (induction as arbitrary: vals s)
  case Nil
  then show ?case by simp
next
  case (Cons b as)
  then show ?case by (cases vals) simp_all
qed










section \<open>Let and the frame\<close>

text \<open>
  Once \<^verbatim>\<open>pushLets\<close> has returned, \<^verbatim>\<open>ArkLet.eval\<close> pops as many locals as it pushed when the
  body completes or ends in a break, continue or return signal, and pops nothing on any
  other error.  When \<^verbatim>\<open>pushLets\<close> itself fails, with a signal or with another error,
  nothing is popped.
\<close>

lemma ArkLet_eval_after_pushLets:
  assumes "pushLets (eval n) boundVars s = (Inr nLets, s1)" and "eval n body s1 = (r, s2)"
  shows "eval (Suc n) (ArkLet boundVars body) s =
           (r, case r of
                 Inr res \<Rightarrow> pop nLets s2
               | Inl e \<Rightarrow> if isArkNonLocalReturn e then pop nLets s2 else s2)"
  using assms by (cases r) simp_all

lemma ArkLet_eval_pushLets_fails:
  "pushLets (eval n) boundVars s = (Inl e, s1) \<Longrightarrow>
     eval (Suc n) (ArkLet boundVars body) s = (Inl e, s1)"
  by simp

text \<open>
  C6.  \<^verbatim>\<open>ArkLet.eval\<close> calls \<^verbatim>\<open>pushLets\<close> before its \<^verbatim>\<open>try\<close>.  A \<^verbatim>\<open>break\<close> raised by an
  initializer therefore leaves the \<^verbatim>\<open>let\<close> with its slot still in the frame: the loop
  that catches the signal gives 1, and the frame, empty before, has one local after.
  A later \<^verbatim>\<open>let y = 2 in y\<close> in the same frame then reads the leaked slot, not \<^verbatim>\<open>y\<close>.
\<close>

theorem break_in_initializer_leaks_slot:
  "fst (eval 4 breakInInitializer newArkState) = Inr (ArkNumberVal 1)
   \<and> length (locals newArkState) = 0
   \<and> length (locals (snd (eval 4 breakInInitializer newArkState))) = 1
   \<and> fst (eval 5 letAfterLeak newArkState) = Inr ArkUndefined"
  unfolding breakInInitializer_def letAfterLeak_def by (simp add: run_simps)

section \<open>Interning\<close>

text \<open>
  Two constructions in a row from the same raw value give the same object, in both
  versions of \<^verbatim>\<open>ConcreteInterned.value\<close> and from any state of the table.
\<close>

lemma ConcreteInterned_value_twice:
  "fst (ConcreteInterned_value C rawVal (snd (ConcreteInterned_value C rawVal t)))
     = fst (ConcreteInterned_value C rawVal t)"
  by (cases "intern t rawVal")
     (auto simp: ConcreteInterned_value_def deref_def split: option.splits)

lemma ConcreteInterned_value_interp_twice:
  "fst (ConcreteInterned_value_interp rawVal (snd (ConcreteInterned_value_interp rawVal t)))
     = fst (ConcreteInterned_value_interp rawVal t)"
  by (cases "intern_interp t rawVal")
     (auto simp: ConcreteInterned_value_interp_def split: option.splits)

text \<open>
  C7.  In the interpreter's version the registry's callback deletes the table's entry
  for the key, whichever object the entry refers to by then.  In \<open>staleFinalization\<close>
  the second construction finds the first object reclaimed and interns a new one, at
  address 1; the callback for the first object then deletes that entry; the third
  construction makes another object, at address 2, while the second one is still there.
\<close>

theorem stale_finalization_breaks_interning:
  "fst staleFinalization \<noteq> fst (snd staleFinalization)
   \<and> fst staleFinalization = 1
   \<and> fst (snd staleFinalization) = 2
   \<and> concreteVals (snd (snd staleFinalization)) 1 = Some (CtorArkNumberVal, RawNumber 7)
   \<and> concreteVals (snd (snd staleFinalization)) 2 = Some (CtorArkNumberVal, RawNumber 7)"
  by (simp add: staleFinalization_def ArkNumber_def ConcreteInterned_value_def deref_def
      reclaim_def finalizationCallback_def noInterning_def)

section \<open>Iterating a list\<close>

text \<open>
  C8.  The callable that \<^verbatim>\<open>iter()\<close> returns gives 1, 2 and the null value on its first
  three invocations, and the host's \<^verbatim>\<open>undefined\<close> on the fourth: the generator has
  finished, and \<^verbatim>\<open>generator.next().value\<close> of a finished generator is \<^verbatim>\<open>undefined\<close>.  A
  second \<^verbatim>\<open>iter()\<close> on the same list gives 1, 2 and the null value again, after the
  first is exhausted.
\<close>

theorem fourth_invocation_is_undefined:
  "fst (eval 7 fourCalls newArkState) = Inr (ArkList 4)
   \<and> lists (snd (eval 7 fourCalls newArkState)) 4
       = [ArkNumberVal 1, ArkNumberVal 2, ArkNullVal, JsUndefined]
   \<and> fst (eval 7 twoIterators newArkState) = Inr (ArkList 6)
   \<and> lists (snd (eval 7 twoIterators newArkState)) 6
       = [ArkNumberVal 1, ArkNumberVal 2, ArkNullVal, ArkNumberVal 1, ArkNumberVal 2, ArkNullVal]"
  unfolding fourCalls_def twoIterators_def by (simp add: run_simps)

section \<open>The equality intrinsic of interp.ts\<close>

































end
